theory Spec2Isabelle
  imports Main "HOL-Library.AList"
begin

section \<open>Python values, errors and attributes\<close>

text \<open>
  The module \<^verbatim>\<open>tusimple/visual_tusimple.py\<close> defines one class, \<^verbatim>\<open>VisualTusimple\<close>.
  Everything an exception does in the source is a value here: a procedure returns
  \<open>py_error option\<close> (\<open>None\<close>: it returned normally) together with the objects it may
  have mutated, a function returns \<open>py_error + 'a\<close>.

  \<open>MalformedInputError\<close> is the error kind the specification names for a bad record; no
  line of the source raises it.  \<open>ValueError\<close> stands for \<^verbatim>\<open>json.JSONDecodeError\<close> and
  \<^verbatim>\<open>UnicodeDecodeError\<close> (both are subclasses of it), \<open>CvError\<close> for \<^verbatim>\<open>cv2.error\<close>.
\<close>

datatype py_error =
    TypeError | KeyError | ZeroDivisionError | AttributeError
  | FileNotFoundError | IsADirectoryError | NotADirectoryError | FileExistsError
  | ValueError | CvError | MalformedInputError

text \<open>
  What \<^verbatim>\<open>json.load\<close> returns.  An object keeps its items in order; a key is looked up
  with \<open>map_of\<close>.  Numbers with a fraction or an exponent (Python floats) are left out of
  the model: the records of the data set hold integers.
\<close>

datatype json =
    JNull | JBool bool | JInt int | JStr string
  | JArr "json list" | JObj "(string \<times> json) list"

text \<open>An attribute of an instance is unset until \<^verbatim>\<open>__init__\<close> assigns it.\<close>

datatype 'a attr = Unset | Attr 'a

type_synonym color = "int \<times> int \<times> int"
type_synonym addr = nat

text \<open>\<^verbatim>\<open>d[key]\<close> with a string key: only a dict accepts it.\<close>

fun py_getitem :: "json \<Rightarrow> string \<Rightarrow> py_error + json" where
  "py_getitem (JObj kvs) k = (case map_of kvs k of None \<Rightarrow> Inl KeyError | Some v \<Rightarrow> Inr v)"
| "py_getitem _ k = Inl TypeError"

text \<open>\<^verbatim>\<open>iter(v)\<close>: a list gives its elements, a string its characters, a dict its keys.\<close>

fun py_iter :: "json \<Rightarrow> py_error + json list" where
  "py_iter (JArr xs) = Inr xs"
| "py_iter (JStr s) = Inr (map (\<lambda>c. JStr [c]) s)"
| "py_iter (JObj kvs) = Inr (map (\<lambda>kv. JStr (fst kv)) kvs)"
| "py_iter _ = Inl TypeError"

text \<open>\<^verbatim>\<open>x != k\<close> for an integer \<open>k\<close>: a bool compares as 0 or 1, any other value differs.\<close>

fun py_ne_int :: "json \<Rightarrow> int \<Rightarrow> bool" where
  "py_ne_int (JInt n) k = (n \<noteq> k)"
| "py_ne_int (JBool b) k = ((if b then 1 else 0) \<noteq> k)"
| "py_ne_int _ k = True"

text \<open>
  A call \<^verbatim>\<open>self.m(a1, ..., an)\<close> of a method declared with \<open>declared\<close> parameters besides
  \<^verbatim>\<open>self\<close> (none of them with a default) runs the body only when the counts agree, and
  raises \<^verbatim>\<open>TypeError\<close> otherwise.
\<close>

definition arity_ok :: "nat \<Rightarrow> nat \<Rightarrow> bool" where
  "arity_ok declared given = (given = declared)"

definition load_json_params :: nat where   \<comment> \<open>\<^verbatim>\<open>def _load_json(self):\<close>\<close>
  "load_json_params = 0"

definition load_image_params :: nat where  \<comment> \<open>\<^verbatim>\<open>def _load_image(self):\<close>\<close>
  "load_image_params = 0"

definition draw_lanes_params :: nat where  \<comment> \<open>\<^verbatim>\<open>def draw_lanes(self):\<close>\<close>
  "draw_lanes_params = 0"

definition save_image_params :: nat where  \<comment> \<open>\<^verbatim>\<open>def save_image(self, output_path):\<close>\<close>
  "save_image_params = 1"


section \<open>The environment: list objects, files, input and output\<close>

text \<open>
  A file is modelled by what the libraries decode it to: a JSON document, a raster image,
  or neither.  The file system is a tree, so every ancestor of a node is a directory.
\<close>

datatype 'img content = Json json | Raster 'img | Other

datatype 'img node = File "'img content" | Dir "(string \<times> 'img node) list"

datatype io_event = OpenRead string | ImRead string | MakeDirs string | ImWrite string

text \<open>
  \<open>cells\<close> and \<open>next_free\<close> are the heap of mutable list objects (the palettes): a list
  literal allocates the cell \<open>next_free\<close>.  \<open>trace\<close> logs every call that reaches the
  file system.
\<close>

record 'img state =
  cells :: "addr \<Rightarrow> color list"
  next_free :: addr
  fs :: "'img node"
  trace :: "io_event list"

definition alloc :: "color list \<Rightarrow> 'img state \<Rightarrow> addr \<times> 'img state" where
  "alloc v s = (next_free s, s\<lparr>cells := (cells s)(next_free s := v), next_free := Suc (next_free s)\<rparr>)"

text \<open>
  A path string is resolved to its components below the root: empty components and
  \<^verbatim>\<open>.\<close> name the directory they stand in and are dropped.  Every path is taken from
  the same root, and \<^verbatim>\<open>..\<close> is not interpreted (it is an ordinary name here).
\<close>

definition add_component :: "string \<Rightarrow> string list \<Rightarrow> string list" where
  "add_component cur rest = (if cur = [] \<or> cur = ''.'' then rest else cur # rest)"

fun split_path_from :: "string \<Rightarrow> string \<Rightarrow> string list" where
  "split_path_from cur [] = add_component cur []"
| "split_path_from cur (c # cs) =
     (if c = CHR ''/''
      then add_component cur (split_path_from [] cs)
      else split_path_from (cur @ [c]) cs)"

definition split_path :: "string \<Rightarrow> string list" where
  "split_path p = split_path_from [] p"

fun lookup :: "'img node \<Rightarrow> string list \<Rightarrow> 'img node option" where
  "lookup nd [] = Some nd"
| "lookup (File c) (n # ns) = None"
| "lookup (Dir es) (n # ns) = (case map_of es n of None \<Rightarrow> None | Some d \<Rightarrow> lookup d ns)"

text \<open>\<^verbatim>\<open>os.path.exists\<close>: the empty path names nothing.\<close>

definition path_exists :: "'img state \<Rightarrow> string \<Rightarrow> bool" where
  "path_exists s p = (p \<noteq> [] \<and> lookup (fs s) (split_path p) \<noteq> None)"

text \<open>
  \<^verbatim>\<open>os.makedirs(path, exist_ok=...)\<close>: missing ancestors are created on the way down; a
  regular file on the way is \<^verbatim>\<open>NotADirectoryError\<close>; a leaf that exists is
  \<^verbatim>\<open>FileExistsError\<close> unless it is a directory and \<open>exist_ok\<close> holds.
\<close>

fun makedirs_node :: "bool \<Rightarrow> 'img node \<Rightarrow> string list \<Rightarrow> py_error + 'img node" where
  "makedirs_node exist_ok (File c) [] = Inl FileExistsError"
| "makedirs_node exist_ok (Dir es) [] = (if exist_ok then Inr (Dir es) else Inl FileExistsError)"
| "makedirs_node exist_ok (File c) (n # ns) = Inl NotADirectoryError"
| "makedirs_node exist_ok (Dir es) (n # ns) =
     (case makedirs_node exist_ok (case map_of es n of None \<Rightarrow> Dir [] | Some d \<Rightarrow> d) ns of
        Inl e \<Rightarrow> Inl e
      | Inr d' \<Rightarrow> Inr (Dir (AList.update n d' es)))"

definition makedirs :: "string \<Rightarrow> bool \<Rightarrow> 'img state \<Rightarrow> py_error option \<times> 'img state" where
  "makedirs p exist_ok s =
     (if p = [] then (Some FileNotFoundError, s)
      else (case makedirs_node exist_ok (fs s) (split_path p) of
              Inl e \<Rightarrow> (Some e, s\<lparr>trace := trace s @ [MakeDirs p]\<rparr>)
            | Inr r \<Rightarrow> (None, s\<lparr>fs := r, trace := trace s @ [MakeDirs p]\<rparr>)))"

text \<open>Whether a regular file lies above the path, so that the path cannot be resolved.\<close>

fun below_file :: "'img node \<Rightarrow> string list \<Rightarrow> bool" where
  "below_file nd [] = False"
| "below_file (File c) (n # ns) = True"
| "below_file (Dir es) (n # ns) = (case map_of es n of None \<Rightarrow> False | Some d \<Rightarrow> below_file d ns)"

text \<open>
  \<^verbatim>\<open>open(path, 'r')\<close> followed by reading the whole file.  A path that names nothing is
  \<^verbatim>\<open>FileNotFoundError\<close>, or \<^verbatim>\<open>NotADirectoryError\<close> when it leads through a regular file.
\<close>

definition open_read :: "string \<Rightarrow> 'img state \<Rightarrow> (py_error + 'img content) \<times> 'img state" where
  "open_read p s =
     (if p = [] then (Inl FileNotFoundError, s)
      else (case lookup (fs s) (split_path p) of
              None \<Rightarrow>
                (Inl (if below_file (fs s) (split_path p) then NotADirectoryError else FileNotFoundError),
                 s\<lparr>trace := trace s @ [OpenRead p]\<rparr>)
            | Some (Dir es) \<Rightarrow> (Inl IsADirectoryError, s\<lparr>trace := trace s @ [OpenRead p]\<rparr>)
            | Some (File c) \<Rightarrow> (Inr c, s\<lparr>trace := trace s @ [OpenRead p]\<rparr>)))"

text \<open>\<^verbatim>\<open>cv2.imread\<close> raises nothing for a file it cannot read: it returns \<^verbatim>\<open>None\<close>.\<close>

definition imread :: "string \<Rightarrow> 'img state \<Rightarrow> 'img option \<times> 'img state" where
  "imread p s =
     ((case lookup (fs s) (split_path p) of
         Some (File (Raster im)) \<Rightarrow> (if p = [] then None else Some im)
       | _ \<Rightarrow> None),
      s\<lparr>trace := trace s @ [ImRead p]\<rparr>)"

text \<open>
  Writing a file: an existing regular file is replaced, a new file needs its parent
  directory, and a directory at the target (or a regular file among the ancestors) makes
  the write fail.
\<close>

fun write_node :: "'img node \<Rightarrow> string list \<Rightarrow> 'img content \<Rightarrow> 'img node option" where
  "write_node (File old) [] c = Some (File c)"
| "write_node (Dir es) [] c = None"
| "write_node (File old) (n # ns) c = None"
| "write_node (Dir es) (n # ns) c =
     (case map_of es n of
        None \<Rightarrow> (if ns = [] then Some (Dir (AList.update n (File c) es)) else None)
      | Some d \<Rightarrow> (case write_node d ns c of
                    None \<Rightarrow> None
                  | Some d' \<Rightarrow> Some (Dir (AList.update n d' es))))"

text \<open>
  \<^verbatim>\<open>cv2.imwrite(filename, img)\<close>: \<^verbatim>\<open>cv2.error\<close> for an empty image or a file name whose
  extension has no encoder (\<open>has_writer\<close> says which names have one in the installed
  build); otherwise it returns whether the file could be written.
\<close>

definition imwrite ::
  "(string \<Rightarrow> bool) \<Rightarrow> string \<Rightarrow> 'img option \<Rightarrow> 'img state \<Rightarrow> (py_error + bool) \<times> 'img state" where
  "imwrite has_writer filename img s =
     (case img of
        None \<Rightarrow> (Inl CvError, s)
      | Some im \<Rightarrow>
          if \<not> has_writer filename then (Inl CvError, s)
          else (case write_node (fs s) (split_path filename) (Raster im) of
                  None \<Rightarrow> (Inr False, s\<lparr>trace := trace s @ [ImWrite filename]\<rparr>)
                | Some r \<Rightarrow> (Inr True, s\<lparr>fs := r, trace := trace s @ [ImWrite filename]\<rparr>)))"


section \<open>The class \<^verbatim>\<open>VisualTusimple\<close>\<close>

record 'img visual_tusimple =
  json_path :: "string attr"
  line_colors :: "addr attr"
  data :: "json attr"
  image_buf :: "'img option attr"   \<comment> \<open>\<^verbatim>\<open>self.image\<close>; \<open>Attr None\<close> is Python's \<^verbatim>\<open>None\<close>\<close>

definition new_instance :: "'img visual_tusimple" where
  "new_instance = \<lparr>json_path = Unset, line_colors = Unset, data = Unset, image_buf = Unset\<rparr>"

definition default_line_colors :: "color list" where
  "default_line_colors = [(255, 0, 0), (0, 255, 0), (0, 0, 255)]"

subsection \<open>\<^verbatim>\<open>_load_json\<close> and \<^verbatim>\<open>_load_image\<close>\<close>

definition load_json :: "'img visual_tusimple \<Rightarrow> 'img state \<Rightarrow> (py_error + json) \<times> 'img state" where
  "load_json self s =
     (case json_path self of
        Unset \<Rightarrow> (Inl AttributeError, s)
      | Attr p \<Rightarrow>
          (case open_read p s of
             (Inl e, s') \<Rightarrow> (Inl e, s')
           | (Inr (Json j), s') \<Rightarrow> (Inr j, s')
           | (Inr _, s') \<Rightarrow> (Inl ValueError, s')))"

text \<open>
  \<^verbatim>\<open>cv2.imread(self.data['raw_file'])\<close>: a string is read as a path; \<^verbatim>\<open>None\<close> (JSON
  \<^verbatim>\<open>null\<close>) gives \<^verbatim>\<open>None\<close> without touching a file; any other value is \<^verbatim>\<open>cv2.error\<close>.
\<close>

definition load_image ::
  "'img visual_tusimple \<Rightarrow> 'img state \<Rightarrow> (py_error + 'img option) \<times> 'img state" where
  "load_image self s =
     (case data self of
        Unset \<Rightarrow> (Inl AttributeError, s)
      | Attr d \<Rightarrow>
          (case py_getitem d ''raw_file'' of
             Inl e \<Rightarrow> (Inl e, s)
           | Inr (JStr p) \<Rightarrow> (case imread p s of (im, s') \<Rightarrow> (Inr im, s'))
           | Inr JNull \<Rightarrow> (Inr None, s)
           | Inr _ \<Rightarrow> (Inl CvError, s)))"

subsection \<open>\<^verbatim>\<open>__init__\<close>\<close>

text \<open>
  \<open>lc\<close> is the \<^verbatim>\<open>line_colors\<close> argument: \<open>None\<close>, or the address of the caller's list.
  The result carries the instance as far as it was initialised when an error stopped the
  constructor.
\<close>

definition init ::
  "string \<Rightarrow> addr option \<Rightarrow> 'img state \<Rightarrow> py_error option \<times> 'img visual_tusimple \<times> 'img state" where
  "init jp lc s0 =
     (let self1 = new_instance\<lparr>json_path := Attr jp\<rparr>;
          (a, s1) = (case lc of Some a \<Rightarrow> (a, s0) | None \<Rightarrow> alloc default_line_colors s0);
          self2 = self1\<lparr>line_colors := Attr a\<rparr>
      in if \<not> arity_ok load_json_params (length [json_path self2]) then (Some TypeError, self2, s1)
         else (case load_json self2 s1 of
                 (Inl e, s2) \<Rightarrow> (Some e, self2, s2)
               | (Inr j, s2) \<Rightarrow>
                   (let self3 = self2\<lparr>data := Attr j\<rparr>
                    in if \<not> arity_ok load_image_params 0 then (Some TypeError, self3, s2)
                       else (case load_image self3 s2 of
                               (Inl e, s3) \<Rightarrow> (Some e, self3, s3)
                             | (Inr im, s3) \<Rightarrow> (None, self3\<lparr>image_buf := Attr im\<rparr>, s3)))))"

subsection \<open>\<^verbatim>\<open>ensure_file_exists\<close>\<close>

text \<open>The paths are the method's \<^verbatim>\<open>*args\<close>; \<^verbatim>\<open>self\<close> is not used by the body.\<close>

fun ensure_file_exists :: "string list \<Rightarrow> bool \<Rightarrow> 'img state \<Rightarrow> py_error option \<times> 'img state" where
  "ensure_file_exists [] exist_ok s = (None, s)"
| "ensure_file_exists (path # args) exist_ok s =
     (if \<not> path_exists s path
      then (case makedirs path exist_ok s of
              (Some e, s') \<Rightarrow> (Some e, s')
            | (None, s') \<Rightarrow> ensure_file_exists args exist_ok s')
      else ensure_file_exists args exist_ok s)"

subsection \<open>\<^verbatim>\<open>draw_lanes\<close>\<close>

text \<open>
  \<^verbatim>\<open>cv2.circle(img, center, radius, color, thickness)\<close> is a parameter: it returns the
  image with the marker drawn, or the error it raises.
\<close>

type_synonym 'img circle_fn =
  "'img \<Rightarrow> json \<times> json \<Rightarrow> int \<Rightarrow> color \<Rightarrow> int \<Rightarrow> py_error + 'img"

text \<open>\<^verbatim>\<open>self.line_colors[i % len(self.line_colors)]\<close>\<close>

definition line_color :: "'img visual_tusimple \<Rightarrow> 'img state \<Rightarrow> nat \<Rightarrow> py_error + color" where
  "line_color self s i =
     (case line_colors self of
        Unset \<Rightarrow> Inl AttributeError
      | Attr a \<Rightarrow>
          (let pal = cells s a
           in if length pal = 0 then Inl ZeroDivisionError
              else Inr (pal ! (i mod length pal))))"

text \<open>\<^verbatim>\<open>[(x, y) for x, y in zip(lane, h_samples) if x != -2]\<close>\<close>

definition lane_points :: "json \<Rightarrow> json \<Rightarrow> py_error + (json \<times> json) list" where
  "lane_points lane h_samples =
     (case py_iter lane of
        Inl e \<Rightarrow> Inl e
      | Inr xs \<Rightarrow>
          (case py_iter h_samples of
             Inl e \<Rightarrow> Inl e
           | Inr ys \<Rightarrow> Inr (filter (\<lambda>(x, y). py_ne_int x (- 2)) (zip xs ys))))"

text \<open>
  \<^verbatim>\<open>for point in lane_points: cv2.circle(self.image, point, 3, line_color, -1)\<close>.
  On \<^verbatim>\<open>None\<close>, the image of a file \<^verbatim>\<open>cv2.imread\<close> could not read, \<^verbatim>\<open>cv2.circle\<close> draws
  nothing and raises nothing, so the loop goes on.
\<close>

fun draw_points ::
  "'img circle_fn \<Rightarrow> color \<Rightarrow> (json \<times> json) list \<Rightarrow> 'img visual_tusimple
     \<Rightarrow> py_error option \<times> 'img visual_tusimple" where
  "draw_points circle col [] self = (None, self)"
| "draw_points circle col (point # rest) self =
     (case image_buf self of
        Unset \<Rightarrow> (Some AttributeError, self)
      | Attr None \<Rightarrow> draw_points circle col rest self
      | Attr (Some im) \<Rightarrow>
          (case circle im point 3 col (- 1) of
             Inl e \<Rightarrow> (Some e, self)
           | Inr im' \<Rightarrow> draw_points circle col rest (self\<lparr>image_buf := Attr (Some im')\<rparr>)))"

text \<open>\<^verbatim>\<open>for i, lane in enumerate(lanes): ...\<close>, entered with the next index \<open>i\<close>.\<close>

fun draw_lanes_loop ::
  "'img circle_fn \<Rightarrow> json \<Rightarrow> nat \<Rightarrow> json list \<Rightarrow> 'img visual_tusimple \<Rightarrow> 'img state
     \<Rightarrow> py_error option \<times> 'img visual_tusimple" where
  "draw_lanes_loop circle h_samples i [] self s = (None, self)"
| "draw_lanes_loop circle h_samples i (lane # rest) self s =
     (case line_color self s i of
        Inl e \<Rightarrow> (Some e, self)
      | Inr col \<Rightarrow>
          (case lane_points lane h_samples of
             Inl e \<Rightarrow> (Some e, self)
           | Inr pts \<Rightarrow>
               (case draw_points circle col pts self of
                  (Some e, self') \<Rightarrow> (Some e, self')
                | (None, self') \<Rightarrow> draw_lanes_loop circle h_samples (Suc i) rest self' s)))"

definition draw_lanes ::
  "'img circle_fn \<Rightarrow> 'img visual_tusimple \<Rightarrow> 'img state
     \<Rightarrow> py_error option \<times> 'img visual_tusimple \<times> 'img state" where
  "draw_lanes circle self s =
     (case data self of
        Unset \<Rightarrow> (Some AttributeError, self, s)
      | Attr d \<Rightarrow>
          (case py_getitem d ''lanes'' of
             Inl e \<Rightarrow> (Some e, self, s)
           | Inr lanes \<Rightarrow>
               (case py_getitem d ''h_samples'' of
                  Inl e \<Rightarrow> (Some e, self, s)
                | Inr h_samples \<Rightarrow>
                    (case py_iter lanes of
                       Inl e \<Rightarrow> (Some e, self, s)
                     | Inr ls \<Rightarrow>
                         (case draw_lanes_loop circle h_samples 0 ls self s of
                            (r, self') \<Rightarrow> (r, self', s))))))"

subsection \<open>\<^verbatim>\<open>save_image\<close>, \<^verbatim>\<open>visualize\<close> and the script\<close>

definition save_image ::
  "(string \<Rightarrow> bool) \<Rightarrow> string \<Rightarrow> 'img visual_tusimple \<Rightarrow> 'img state \<Rightarrow> py_error option \<times> 'img state" where
  "save_image has_writer output_path self s =
     (case ensure_file_exists [output_path] True s of
        (Some e, s') \<Rightarrow> (Some e, s')
      | (None, s') \<Rightarrow>
          (case image_buf self of
             Unset \<Rightarrow> (Some AttributeError, s')
           | Attr im \<Rightarrow>
               (case imwrite has_writer output_path im s' of
                  (Inl e, s'') \<Rightarrow> (Some e, s'')
                | (Inr written, s'') \<Rightarrow> (None, s''))))"

definition visualize ::
  "'img circle_fn \<Rightarrow> (string \<Rightarrow> bool) \<Rightarrow> string \<Rightarrow> 'img visual_tusimple \<Rightarrow> 'img state
     \<Rightarrow> py_error option \<times> 'img visual_tusimple \<times> 'img state" where
  "visualize circle has_writer output_path self s =
     (if \<not> arity_ok draw_lanes_params 0 then (Some TypeError, self, s)
      else (case draw_lanes circle self s of
              (Some e, self', s') \<Rightarrow> (Some e, self', s')
            | (None, self', s') \<Rightarrow>
                (if \<not> arity_ok save_image_params (length [output_path]) then (Some TypeError, self', s')
                 else (case save_image has_writer output_path self' s' of
                         (r, s'') \<Rightarrow> (r, self', s'')))))"

text \<open>
  The script under \<^verbatim>\<open>if __name__ == '__main__'\<close>, with its two path constants as
  arguments: construct, then visualize.
\<close>

definition run ::
  "'img circle_fn \<Rightarrow> (string \<Rightarrow> bool) \<Rightarrow> string \<Rightarrow> string \<Rightarrow> 'img state
     \<Rightarrow> py_error option \<times> 'img state" where
  "run circle has_writer jp output_path s =
     (case init jp None s of
        (Some e, visualizer, s') \<Rightarrow> (Some e, s')
      | (None, visualizer, s') \<Rightarrow>
          (case visualize circle has_writer output_path visualizer s' of
             (r, visualizer', s'') \<Rightarrow> (r, s'')))"

subsection \<open>A canvas that records the markers drawn on it\<close>

text \<open>
  Instantiating the \<^verbatim>\<open>cv2.circle\<close> parameter with a function that appends its arguments
  to a list makes the image the exact sequence of markers rendered: centre, radius,
  colour and thickness of every call, in order.
\<close>

type_synonym marker = "(json \<times> json) \<times> int \<times> color \<times> int"

definition record_circle :: "marker list circle_fn" where
  "record_circle im center radius col thickness = Inr (im @ [(center, radius, col, thickness)])"

subsection \<open>Well-typed records\<close>

text \<open>
  The JSON value of a sequence of integers, and of a sequence of lanes.  A record of the
  data set has its \<^verbatim>\<open>lanes\<close> and \<^verbatim>\<open>h_samples\<close> of this form.
\<close>

definition ints_json :: "int list \<Rightarrow> json" where
  "ints_json xs = JArr (map JInt xs)"

definition lanes_json :: "int list list \<Rightarrow> json" where
  "lanes_json ls = JArr (map ints_json ls)"

text \<open>
  The rendering the specification describes for one lane: a filled marker of radius 3 in
  the lane's colour at every pair \<open>(x, y)\<close> of the lane and the height samples, taken
  position by position, whose \<open>x\<close> is not the sentinel.
\<close>

definition expected_markers :: "int list \<Rightarrow> color \<Rightarrow> int list \<Rightarrow> marker list" where
  "expected_markers hs col lane =
     map (\<lambda>(x, y). ((JInt x, JInt y), 3, col, - 1)) (filter (\<lambda>(x, y). x \<noteq> - 2) (zip lane hs))"

text \<open>
  The set of points marked on a recording canvas, and the number of entries of a lane
  that are not the sentinel: the two quantities the specification compares.
\<close>

definition rendered_points :: "marker list \<Rightarrow> (json \<times> json) set" where
  "rendered_points ms = fst ` set ms"

definition count_detected :: "int list \<Rightarrow> nat" where
  "count_detected lane = length (filter (\<lambda>x. x \<noteq> - 2) lane)"

subsection \<open>Concrete inputs\<close>

definition example_record :: json where
  "example_record = JObj
     [(''raw_file'', JStr ''clips/0601/20.jpg''),
      (''lanes'', lanes_json [[10, - 2, 30], [5, 15, - 2]]),
      (''h_samples'', ints_json [100, 200, 300])]"


definition four_lane_record :: json where
  "four_lane_record = JObj
     [(''raw_file'', JStr ''clips/0601/20.jpg''),
      (''lanes'', lanes_json [[10, 11], [20, - 2], [- 2, 31], [40, 41]]),
      (''h_samples'', ints_json [100, 200])]"

definition no_lanes_record :: json where
  "no_lanes_record = JObj
     [(''raw_file'', JStr ''clips/0601/20.jpg''),
      (''h_samples'', ints_json [100, 200, 300])]"

definition repeated_height_record :: json where
  "repeated_height_record = JObj
     [(''raw_file'', JStr ''clips/0601/20.jpg''),
      (''lanes'', lanes_json [[5, 5]]),
      (''h_samples'', ints_json [100, 100])]"

definition example_state :: "marker list state" where
  "example_state =
     \<lparr>cells = (\<lambda>a. [])(0 := default_line_colors), next_free = 1,
      fs = Dir [(''label.json'', File (Json example_record)),
                (''clips'', Dir [(''0601'', Dir [(''20.jpg'', File (Raster []))])])],
      trace = []\<rparr>"

definition example_self :: "json \<Rightarrow> marker list visual_tusimple" where
  "example_self d =
     \<lparr>json_path = Attr ''label.json'', line_colors = Attr 0, data = Attr d,
      image_buf = Attr (Some [])\<rparr>"


text \<open>A build of OpenCV that has an encoder for every file name.\<close>

definition any_writer :: "string \<Rightarrow> bool" where
  "any_writer filename = True"


section \<open>Properties of \<^verbatim>\<open>draw_lanes\<close>\<close>

subsection \<open>Auxiliary facts\<close>

lemma lane_points_ints_json:
  "lane_points (ints_json lane) (ints_json hs) =
     Inr (map (\<lambda>(x, y). (JInt x, JInt y)) (filter (\<lambda>(x, y). x \<noteq> - 2) (zip lane hs)))"
  by (simp add: ints_json_def lane_points_def zip_map_map filter_map o_def case_prod_unfold)

lemma markers_of_points:
  "map (\<lambda>p. (p, 3, col, - 1)) (map (\<lambda>(x, y). (JInt x, JInt y)) ps) =
     map (\<lambda>(x, y). ((JInt x, JInt y), 3, col, - 1)) ps"
  by (simp add: case_prod_unfold)

lemma count_zip_fst:
  "length (filter (\<lambda>(x, y). P x) (zip xs ys)) = length (filter P (take (length ys) xs))"
proof -
  have "map fst (filter (\<lambda>(x, y). P x) (zip xs ys)) = filter P (map fst (zip xs ys))"
    by (simp add: filter_map o_def case_prod_unfold)
  also have "map fst (zip xs ys) = take (length ys) xs"
    by (simp add: map_fst_zip_take min_def)
  finally have "length (map fst (filter (\<lambda>(x, y). P x) (zip xs ys))) =
      length (filter P (take (length ys) xs))"
    by simp
  then show ?thesis by simp
qed

lemma expected_markers_points:
  "map fst (expected_markers hs col lane) =
     map (\<lambda>(x, y). (JInt x, JInt y)) (filter (\<lambda>(x, y). x \<noteq> - 2) (zip lane hs))"
  by (simp add: expected_markers_def case_prod_unfold)

text \<open>Distinct height samples give distinct points.\<close>

lemma lane_points_distinct:
  assumes "distinct hs"
  shows "distinct (map (\<lambda>(x, y). (JInt x, JInt y)) (filter (\<lambda>(x, y). x \<noteq> - 2) (zip lane hs)))"
proof -
  have "distinct (zip lane hs)" using assms by (rule distinct_zipI2)
  then have "distinct (filter (\<lambda>(x, y). x \<noteq> - 2) (zip lane hs))" by simp
  moreover have "inj (\<lambda>(x :: int, y :: int). (JInt x, JInt y))"
    by (auto simp: inj_on_def)
  ultimately show ?thesis
    by (simp add: distinct_map inj_on_subset [OF _ subset_UNIV])
qed

text \<open>On the recording canvas every point of the list is drawn, once and in order.\<close>

lemma draw_points_record:
  "image_buf self = Attr (Some im) \<Longrightarrow>
   draw_points record_circle col pts self =
     (None, self\<lparr>image_buf := Attr (Some (im @ map (\<lambda>p. (p, 3, col, - 1)) pts))\<rparr>)"
proof (induction pts arbitrary: self im)
  case Nil
  then show ?case by simp
next
  case (Cons p ps)
  have "image_buf (self\<lparr>image_buf := Attr (Some (im @ [(p, 3, col, - 1)]))\<rparr>) =
      Attr (Some (im @ [(p, 3, col, - 1)]))"
    by simp
  from Cons.IH [OF this] Cons.prems show ?case
    by (simp add: record_circle_def)
qed

text \<open>Whatever \<^verbatim>\<open>cv2.circle\<close> does, the inner loop assigns to no attribute but the image.\<close>

lemma draw_points_frame:
  "draw_points circle col pts self = (r, self') \<Longrightarrow>
   self' = self\<lparr>image_buf := image_buf self'\<rparr>"
proof (induction pts arbitrary: self)
  case Nil
  then show ?case by simp
next
  case (Cons p ps)
  show ?case
  proof (cases "image_buf self")
    case Unset
    with Cons.prems show ?thesis by auto
  next
    case (Attr oi)
    show ?thesis
    proof (cases oi)
      case None
      with Attr Cons.prems have "draw_points circle col ps self = (r, self')" by simp
      from Cons.IH [OF this] show ?thesis .
    next
      case (Some im)
      show ?thesis
      proof (cases "circle im p 3 col (- 1)")
        case (Inl e)
        with Some Attr Cons.prems show ?thesis by auto
      next
        case (Inr im')
        with Some Attr Cons.prems
        have "draw_points circle col ps (self\<lparr>image_buf := Attr (Some im')\<rparr>) = (r, self')"
          by simp
        from Cons.IH [OF this] show ?thesis by simp
      qed
    qed
  qed
qed

lemma draw_lanes_loop_frame:
  "draw_lanes_loop circle h i ls self s = (r, self') \<Longrightarrow>
   self' = self\<lparr>image_buf := image_buf self'\<rparr>"
proof (induction ls arbitrary: i self)
  case Nil
  then show ?case by simp
next
  case (Cons lane rest)
  show ?case
  proof (cases "line_color self s i")
    case (Inl e)
    with Cons.prems show ?thesis by auto
  next
    case col: (Inr col)
    show ?thesis
    proof (cases "lane_points lane h")
      case (Inl e)
      with col Cons.prems show ?thesis by auto
    next
      case pts: (Inr pts)
      obtain r1 self1 where dp: "draw_points circle col pts self = (r1, self1)"
        by (cases "draw_points circle col pts self")
      have f1: "self1 = self\<lparr>image_buf := image_buf self1\<rparr>"
        by (rule draw_points_frame [OF dp])
      show ?thesis
      proof (cases r1)
        case (Some e)
        with col pts dp Cons.prems have "self' = self1" by simp
        with f1 show ?thesis by simp
      next
        case None
        with col pts dp Cons.prems
        have "draw_lanes_loop circle h (Suc i) rest self1 s = (r, self')" by simp
        from Cons.IH [OF this] have "self' = self1\<lparr>image_buf := image_buf self'\<rparr>" .
        then have "self' = (self\<lparr>image_buf := image_buf self1\<rparr>)\<lparr>image_buf := image_buf self'\<rparr>"
          using f1 by simp
        then show ?thesis by simp
      qed
    qed
  qed
qed

text \<open>
  The outer loop on a well-typed record, a non-empty palette and the recording canvas:
  lane \<open>k\<close> of the remaining lanes contributes its expected markers in the colour of
  index \<open>i + k\<close>.
\<close>

lemma draw_lanes_loop_record:
  assumes "line_colors self = Attr a" and "cells s a \<noteq> []" and "image_buf self = Attr (Some im)"
  shows "draw_lanes_loop record_circle (ints_json hs) i (map ints_json lanes) self s =
     (None, self\<lparr>image_buf := Attr (Some (im @ concat (map (\<lambda>k.
        expected_markers hs (cells s a ! ((i + k) mod length (cells s a))) (lanes ! k)) [0..<length lanes])))\<rparr>)"
  using assms
proof (induction lanes arbitrary: i self im)
  case Nil
  then show ?case by simp
next
  case (Cons lane rest)
  let ?col = "cells s a ! (i mod length (cells s a))"
  let ?im' = "im @ expected_markers hs ?col lane"
  let ?self' = "self\<lparr>image_buf := Attr (Some ?im')\<rparr>"
  have col: "line_color self s i = Inr ?col"
    using Cons.prems by (simp add: line_color_def Let_def)
  have pts: "draw_points record_circle ?col
      (map (\<lambda>(x, y). (JInt x, JInt y)) (filter (\<lambda>(x, y). x \<noteq> - 2) (zip lane hs))) self = (None, ?self')"
    using draw_points_record [OF Cons.prems(3)]
    by (simp add: expected_markers_def markers_of_points)
  have rest: "draw_lanes_loop record_circle (ints_json hs) (Suc i) (map ints_json rest) ?self' s =
      (None, ?self'\<lparr>image_buf := Attr (Some (?im' @ concat (map (\<lambda>k.
        expected_markers hs (cells s a ! ((Suc i + k) mod length (cells s a))) (rest ! k)) [0..<length rest])))\<rparr>)"
    by (rule Cons.IH) (use Cons.prems in simp_all)
  have shift: "map (\<lambda>k. expected_markers hs (cells s a ! ((i + k) mod length (cells s a))) ((lane # rest) ! k))
        [0..<length (lane # rest)] =
      expected_markers hs ?col lane #
      map (\<lambda>k. expected_markers hs (cells s a ! ((Suc i + k) mod length (cells s a))) (rest ! k)) [0..<length rest]"
    by (simp add: upt_conv_Cons map_Suc_upt [symmetric] del: upt_Suc)
  show ?case
    by (simp only: list.map draw_lanes_loop.simps col lane_points_ints_json pts rest shift
        sum.case prod.case option.case concat.simps) simp
qed

lemma draw_lanes_record:
  assumes "data self = Attr (JObj kvs)"
    and "map_of kvs ''lanes'' = Some (lanes_json lanes)"
    and "map_of kvs ''h_samples'' = Some (ints_json hs)"
    and "line_colors self = Attr a" and "cells s a \<noteq> []"
    and "image_buf self = Attr (Some im)"
  shows "draw_lanes record_circle self s =
     (None, self\<lparr>image_buf := Attr (Some (im @ concat (map (\<lambda>k.
        expected_markers hs (cells s a ! (k mod length (cells s a))) (lanes ! k)) [0..<length lanes])))\<rparr>, s)"
  using draw_lanes_loop_record [OF assms(4-6), of hs 0 lanes] assms(1-3)
  by (simp add: draw_lanes_def lanes_json_def)

subsection \<open>The scenario of the specification\<close>

text \<open>
  Claim C1.  For a record with \<^verbatim>\<open>lanes = [[10, -2, 30], [5, 15, -2]]\<close> and
  \<^verbatim>\<open>h_samples = [100, 200, 300]\<close>, an instance whose palette has the entries 0 and 1,
  and a loaded image, \<^verbatim>\<open>draw_lanes\<close> returns normally after exactly four calls of
  \<^verbatim>\<open>cv2.circle\<close>: the centres (10,100) and (30,300) for lane 0 in the colour
  \<^verbatim>\<open>palette[0]\<close>, then (5,100) and (15,200) for lane 1 in the colour \<^verbatim>\<open>palette[1]\<close>,
  each with radius 3 and thickness -1.  Nothing is drawn for the two sentinel entries.
\<close>

theorem scenario_two_lanes:
  assumes "data self = Attr (JObj kvs)"
    and "map_of kvs ''lanes'' = Some (lanes_json [[10, - 2, 30], [5, 15, - 2]])"
    and "map_of kvs ''h_samples'' = Some (ints_json [100, 200, 300])"
    and "line_colors self = Attr a" and "2 \<le> length (cells s a)"
    and "image_buf self = Attr (Some im)"
  shows "draw_lanes record_circle self s =
     (None,
      self\<lparr>image_buf := Attr (Some (im @
        [((JInt 10, JInt 100), 3, cells s a ! 0, - 1), ((JInt 30, JInt 300), 3, cells s a ! 0, - 1),
         ((JInt 5, JInt 100), 3, cells s a ! 1, - 1), ((JInt 15, JInt 200), 3, cells s a ! 1, - 1)]))\<rparr>,
      s)"
proof -
  have ne: "cells s a \<noteq> []" using assms(5) by auto
  have lt: "Suc 0 < length (cells s a)" using assms(5) by simp
  have m: "Suc 0 mod length (cells s a) = Suc 0" using lt by (rule mod_less)
  have two: "[0..<length [[10, - 2, 30], [5, 15, - 2 :: int]]] = [0, Suc 0]"
    by (simp add: upt_conv_Cons)
  show ?thesis
    unfolding draw_lanes_record [OF assms(1-4) ne assms(6)] two
    using lt by (simp add: expected_markers_def m)
qed

theorem scenario_two_lanes_witness:
  "data (example_self example_record) = Attr example_record
   \<and> 2 \<le> length (cells example_state 0)
   \<and> draw_lanes record_circle (example_self example_record) example_state =
     (None,
      (example_self example_record)\<lparr>image_buf := Attr (Some
        [((JInt 10, JInt 100), 3, (255, 0, 0), - 1), ((JInt 30, JInt 300), 3, (255, 0, 0), - 1),
         ((JInt 5, JInt 100), 3, (0, 255, 0), - 1), ((JInt 15, JInt 200), 3, (0, 255, 0), - 1)])\<rparr>,
      example_state)"
proof -
  have d: "data (example_self example_record) =
      Attr (JObj [(''raw_file'', JStr ''clips/0601/20.jpg''),
        (''lanes'', lanes_json [[10, - 2, 30], [5, 15, - 2]]),
        (''h_samples'', ints_json [100, 200, 300])])"
    by (simp add: example_self_def example_record_def)
  have c: "2 \<le> length (cells example_state 0)"
    by (simp add: example_state_def default_line_colors_def)
  show ?thesis
    using scenario_two_lanes [OF d _ _ _ c, where im = "[]"] c
    by (simp add: example_self_def example_record_def example_state_def default_line_colors_def)
qed

subsection \<open>Pairing of a lane with the height samples\<close>

text \<open>
  Claim C2, as the code has it.  \<^verbatim>\<open>draw_lanes\<close> builds a list of points for each lane
  and draws one marker per element.  On a well-typed record the canvas after the call is
  the old canvas, then the markers of the lanes before lane \<open>k\<close>, then those of lane
  \<open>k\<close>, then those of the lanes after it.  For a lane \<open>k\<close> as long as \<^verbatim>\<open>h_samples\<close>, its
  markers are the pairs of the lane and the height samples whose \<open>x\<close> is not -2, in the
  lane's colour; there are as many of them as the lane has entries different from -2
  (a point that occurs twice is drawn and counted twice), at most as many as there are
  height samples, and none exactly when every entry is -2.  When no height sample is
  repeated, the set of points marked for the lane has that size too.
\<close>

theorem markers_per_lane:
  assumes "data self = Attr (JObj kvs)"
    and "map_of kvs ''lanes'' = Some (lanes_json lanes)"
    and "map_of kvs ''h_samples'' = Some (ints_json hs)"
    and "line_colors self = Attr a" and "cells s a \<noteq> []"
    and "image_buf self = Attr (Some im)"
    and "k < length lanes" and "length (lanes ! k) = length hs"
  shows "\<exists>before seg after.
       draw_lanes record_circle self s =
         (None, self\<lparr>image_buf := Attr (Some (im @ before @ seg @ after))\<rparr>, s)
     \<and> before = concat (map (\<lambda>i. expected_markers hs (cells s a ! (i mod length (cells s a))) (lanes ! i))
                  [0..<k])
     \<and> after = concat (map (\<lambda>i. expected_markers hs (cells s a ! (i mod length (cells s a))) (lanes ! i))
                  [Suc k..<length lanes])
     \<and> map fst seg = map (\<lambda>(x, y). (JInt x, JInt y)) (filter (\<lambda>(x, y). x \<noteq> - 2) (zip (lanes ! k) hs))
     \<and> (\<forall>m \<in> set seg. snd m = (3, cells s a ! (k mod length (cells s a)), - 1))
     \<and> length seg = count_detected (lanes ! k)
     \<and> length seg \<le> length hs
     \<and> (seg = []) = (\<forall>x \<in> set (lanes ! k). x = - 2)
     \<and> (distinct hs \<longrightarrow> card (rendered_points seg) = count_detected (lanes ! k))"
proof -
  let ?col = "\<lambda>i. cells s a ! (i mod length (cells s a))"
  let ?segs = "\<lambda>i. expected_markers hs (?col i) (lanes ! i)"
  let ?seg = "?segs k"
  have split: "[0..<length lanes] = [0..<k] @ k # [Suc k..<length lanes]"
    using assms(7) by (metis upt_add_eq_append upt_conv_Cons le0 le_add_diff_inverse less_imp_le_nat plus_nat.add_0)
  have run: "draw_lanes record_circle self s =
      (None, self\<lparr>image_buf := Attr (Some (im @ concat (map ?segs [0..<k]) @ ?seg
         @ concat (map ?segs [Suc k..<length lanes])))\<rparr>, s)"
    unfolding draw_lanes_record [OF assms(1-6)] by (subst split) simp
  have pts: "map fst ?seg =
      map (\<lambda>(x, y). (JInt x, JInt y)) (filter (\<lambda>(x, y). x \<noteq> - 2) (zip (lanes ! k) hs))"
    by (rule expected_markers_points)
  have col: "\<forall>m \<in> set ?seg. snd m = (3, ?col k, - 1)"
    by (auto simp: expected_markers_def)
  have n: "length ?seg = count_detected (lanes ! k)"
    using assms(8) by (simp add: expected_markers_def count_detected_def count_zip_fst)
  have le: "length ?seg \<le> length hs"
    unfolding n count_detected_def
    using assms(8) length_filter_le [of "\<lambda>x. x \<noteq> - 2" "lanes ! k"] by simp
  have "(?seg = []) = (count_detected (lanes ! k) = 0)"
    unfolding n [symmetric] by simp
  also have "\<dots> = (\<forall>x \<in> set (lanes ! k). x = - 2)"
    by (simp add: count_detected_def filter_empty_conv)
  finally have z: "(?seg = []) = (\<forall>x \<in> set (lanes ! k). x = - 2)" .
  have c: "card (rendered_points ?seg) = count_detected (lanes ! k)" if "distinct hs"
  proof -
    have "distinct (map fst ?seg)"
      unfolding pts by (rule lane_points_distinct [OF that])
    then have "card (set (map fst ?seg)) = length (map fst ?seg)"
      by (rule distinct_card)
    then show ?thesis
      using n by (simp add: rendered_points_def)
  qed
  from run pts col n le z c show ?thesis by blast
qed

theorem markers_per_lane_witness:
  "(0::nat) < length [[10, - 2, 30], [5, 15, - 2 :: int]]
   \<and> length ([[10, - 2, 30], [5, 15, - 2]] ! 0) = length [100, 200, 300 :: int]
   \<and> distinct [100, 200, 300 :: int]
   \<and> count_detected [10, - 2, 30] = 2
   \<and> (\<exists>seg after.
         draw_lanes record_circle (example_self example_record) example_state =
           (None, (example_self example_record)\<lparr>image_buf := Attr (Some (seg @ after))\<rparr>, example_state)
       \<and> seg = [((JInt 10, JInt 100), 3, (255, 0, 0), - 1), ((JInt 30, JInt 300), 3, (255, 0, 0), - 1)]
       \<and> after = [((JInt 5, JInt 100), 3, (0, 255, 0), - 1), ((JInt 15, JInt 200), 3, (0, 255, 0), - 1)]
       \<and> length seg = count_detected [10, - 2, 30]
       \<and> card (rendered_points seg) = count_detected [10, - 2, 30])"
proof -
  have d: "data (example_self example_record) =
      Attr (JObj [(''raw_file'', JStr ''clips/0601/20.jpg''),
        (''lanes'', lanes_json [[10, - 2, 30], [5, 15, - 2]]),
        (''h_samples'', ints_json [100, 200, 300])])"
    by (simp add: example_self_def example_record_def)
  have c: "cells example_state 0 \<noteq> []"
    by (simp add: example_state_def default_line_colors_def)
  have i: "image_buf (example_self example_record) = Attr (Some [])"
    by (simp add: example_self_def)
  have l: "line_colors (example_self example_record) = Attr 0"
    by (simp add: example_self_def)
  have k: "(0::nat) < length [[10, - 2, 30], [5, 15, - 2 :: int]]" by simp
  have n: "length ([[10, - 2, 30], [5, 15, - 2]] ! 0) = length [100, 200, 300 :: int]" by simp
  have dist: "distinct [100, 200, 300 :: int]" by simp
  have cnt: "count_detected [10, - 2, 30] = 2" by (simp add: count_detected_def)
  have rest: "[Suc 0..<length [[10, - 2, 30], [5, 15, - 2 :: int]]] = [Suc 0]"
    by (simp add: upt_conv_Cons)
  have m2: "map_of [(''raw_file'', JStr ''clips/0601/20.jpg''),
        (''lanes'', lanes_json [[10, - 2, 30], [5, 15, - 2]]),
        (''h_samples'', ints_json [100, 200, 300])] ''lanes'' = Some (lanes_json [[10, - 2, 30], [5, 15, - 2]])"
    by simp
  have m3: "map_of [(''raw_file'', JStr ''clips/0601/20.jpg''),
        (''lanes'', lanes_json [[10, - 2, 30], [5, 15, - 2]]),
        (''h_samples'', ints_json [100, 200, 300])] ''h_samples'' = Some (ints_json [100, 200, 300])"
    by simp
  from markers_per_lane [OF d m2 m3 l c i k n]
  obtain before seg after where
    run: "draw_lanes record_circle (example_self example_record) example_state =
         (None, (example_self example_record)\<lparr>image_buf := Attr (Some ([] @ before @ seg @ after))\<rparr>,
          example_state)"
    and b: "before = concat (map (\<lambda>i. expected_markers [100, 200, 300]
          (cells example_state 0 ! (i mod length (cells example_state 0)))
          ([[10, - 2, 30], [5, 15, - 2]] ! i)) [0..<0])"
    and a: "after = concat (map (\<lambda>i. expected_markers [100, 200, 300]
          (cells example_state 0 ! (i mod length (cells example_state 0)))
          ([[10, - 2, 30], [5, 15, - 2]] ! i)) [Suc 0..<length [[10, - 2, 30], [5, 15, - 2 :: int]]])"
    and p: "map fst seg = map (\<lambda>(x, y). (JInt x, JInt y))
          (filter (\<lambda>(x, y). x \<noteq> - 2) (zip ([[10, - 2, 30], [5, 15, - 2]] ! 0) [100, 200, 300]))"
    and col: "\<forall>m \<in> set seg. snd m = (3, cells example_state 0 ! (0 mod length (cells example_state 0)), - 1)"
    and len: "length seg = count_detected ([[10, - 2, 30], [5, 15, - 2]] ! 0)"
    and crd: "distinct [100, 200, 300 :: int] \<longrightarrow>
          card (rendered_points seg) = count_detected ([[10, - 2, 30], [5, 15, - 2]] ! 0)"
    by blast
  have b': "before = []" using b by simp
  have a': "after = [((JInt 5, JInt 100), 3, (0, 255, 0), - 1), ((JInt 15, JInt 200), 3, (0, 255, 0), - 1)]"
    unfolding a rest by (simp add: expected_markers_def example_state_def default_line_colors_def)
  have col': "\<forall>m \<in> set seg. snd m = (3, (255, 0, 0), - 1)"
    using col by (simp add: example_state_def default_line_colors_def)
  have p': "map fst seg = [(JInt 10, JInt 100), (JInt 30, JInt 300)]"
    using p by simp
  have seg: "seg = [((JInt 10, JInt 100), 3, (255, 0, 0), - 1), ((JInt 30, JInt 300), 3, (255, 0, 0), - 1)]"
  proof -
    from p' obtain m1 m2 where s2: "seg = [m1, m2]" and f1: "fst m1 = (JInt 10, JInt 100)"
      and f2: "fst m2 = (JInt 30, JInt 300)"
      by (auto simp: map_eq_Cons_conv)
    from col' s2 have "snd m1 = (3, (255, 0, 0), - 1)" and "snd m2 = (3, (255, 0, 0), - 1)" by simp_all
    with f1 f2 s2 show ?thesis by (auto simp: prod_eq_iff)
  qed
  from run b' a' seg len crd dist cnt k n show ?thesis by simp
qed

text \<open>
  Claim C2 as stated fails where a height sample is repeated: for the lane \<^verbatim>\<open>[5, 5]\<close>
  with \<^verbatim>\<open>h_samples = [100, 100]\<close>, \<^verbatim>\<open>draw_lanes\<close> draws the marker at (5,100) twice, so
  the set of points rendered has one element while two entries differ from -2.
\<close>

theorem pairing_set_counterexample:
  "length [5, 5 :: int] = length [100, 100 :: int]
   \<and> draw_lanes record_circle (example_self repeated_height_record) example_state =
       (None,
        (example_self repeated_height_record)\<lparr>image_buf := Attr (Some
          [((JInt 5, JInt 100), 3, (255, 0, 0), - 1), ((JInt 5, JInt 100), 3, (255, 0, 0), - 1)])\<rparr>,
        example_state)
   \<and> card (rendered_points
          [((JInt 5, JInt 100), 3, (255, 0, 0), - 1), ((JInt 5, JInt 100), 3, (255, 0, 0), - 1)]) = 1
   \<and> count_detected [5, 5] = 2
   \<and> card (rendered_points
          [((JInt 5, JInt 100), 3, (255, 0, 0), - 1), ((JInt 5, JInt 100), 3, (255, 0, 0), - 1)])
       \<noteq> count_detected [5, 5]"
  by (simp add: draw_lanes_def lanes_json_def ints_json_def line_color_def Let_def lane_points_def
      record_circle_def rendered_points_def count_detected_def
      example_self_def repeated_height_record_def example_state_def default_line_colors_def)



subsection \<open>Colours\<close>

text \<open>
  Claim C3.  With a non-empty palette of length \<open>P\<close>, lane \<open>i\<close> is drawn in the colour
  \<^verbatim>\<open>palette[i mod P]\<close>: every marker of lane \<open>i\<close> on the canvas carries it, and the colour
  selected for index \<open>i + P\<close> is the one selected for index \<open>i\<close>.  The statement holds for
  any number of lanes; with more lanes than colours, colours repeat.
\<close>

theorem color_cycling:
  assumes "data self = Attr (JObj kvs)"
    and "map_of kvs ''lanes'' = Some (lanes_json lanes)"
    and "map_of kvs ''h_samples'' = Some (ints_json hs)"
    and "line_colors self = Attr a" and "cells s a = pal" and "pal \<noteq> []"
    and "image_buf self = Attr (Some im)"
  shows "draw_lanes record_circle self s =
       (None, self\<lparr>image_buf := Attr (Some (im @ concat (map (\<lambda>i.
          expected_markers hs (pal ! (i mod length pal)) (lanes ! i)) [0..<length lanes])))\<rparr>, s)
     \<and> (\<forall>i. line_color self s i = Inr (pal ! (i mod length pal)))
     \<and> (\<forall>i. line_color self s (i + length pal) = line_color self s i)"
proof -
  have ne: "cells s a \<noteq> []" using assms(5,6) by simp
  have c: "line_color self s i = Inr (pal ! (i mod length pal))" for i
    using assms(4-6) by (simp add: line_color_def Let_def)
  have "(i + length pal) mod length pal = i mod length pal" for i
    by simp
  then have p: "line_color self s (i + length pal) = line_color self s i" for i
    by (simp add: c)
  show ?thesis
    using draw_lanes_record [OF assms(1-4) ne assms(7)] c p assms(5) by simp
qed

theorem color_cycling_witness:
  "cells example_state 0 = default_line_colors
   \<and> length default_line_colors < length [[10, 11], [20, - 2], [- 2, 31], [40, 41 :: int]]
   \<and> draw_lanes record_circle (example_self four_lane_record) example_state =
       (None,
        (example_self four_lane_record)\<lparr>image_buf := Attr (Some
          [((JInt 10, JInt 100), 3, (255, 0, 0), - 1), ((JInt 11, JInt 200), 3, (255, 0, 0), - 1),
           ((JInt 20, JInt 100), 3, (0, 255, 0), - 1),
           ((JInt 31, JInt 200), 3, (0, 0, 255), - 1),
           ((JInt 40, JInt 100), 3, (255, 0, 0), - 1), ((JInt 41, JInt 200), 3, (255, 0, 0), - 1)])\<rparr>,
        example_state)
   \<and> line_color (example_self four_lane_record) example_state 3 =
       line_color (example_self four_lane_record) example_state 0"
proof -
  have d: "data (example_self four_lane_record) =
      Attr (JObj [(''raw_file'', JStr ''clips/0601/20.jpg''),
        (''lanes'', lanes_json [[10, 11], [20, - 2], [- 2, 31], [40, 41]]),
        (''h_samples'', ints_json [100, 200])])"
    by (simp add: example_self_def four_lane_record_def)
  have c: "cells example_state 0 = default_line_colors"
    by (simp add: example_state_def)
  have ne: "default_line_colors \<noteq> []"
    by (simp add: default_line_colors_def)
  have i: "image_buf (example_self four_lane_record) = Attr (Some [])"
    by (simp add: example_self_def)
  have l: "line_colors (example_self four_lane_record) = Attr 0"
    by (simp add: example_self_def)
  have four: "[0..<length [[10, 11], [20, - 2], [- 2, 31], [40, 41 :: int]]] = [0, 1, 2, 3]"
    by (simp add: upt_conv_Cons)
  have len: "length default_line_colors = 3"
    by (simp add: default_line_colors_def)
  note cc = color_cycling [OF d _ _ l c ne i,
      of "[[10, 11], [20, - 2], [- 2, 31], [40, 41]]" "[100, 200]", simplified]
  from cc have "line_color (example_self four_lane_record) example_state (0 + length default_line_colors) =
      line_color (example_self four_lane_record) example_state 0"
    by blast
  then have same: "line_color (example_self four_lane_record) example_state 3 =
      line_color (example_self four_lane_record) example_state 0"
    by (simp add: len)
  from cc have "draw_lanes record_circle (example_self four_lane_record) example_state =
       (None, (example_self four_lane_record)\<lparr>image_buf := Attr (Some (concat (map (\<lambda>i.
          expected_markers [100, 200] (default_line_colors ! (i mod length default_line_colors))
            ([[10, 11], [20, - 2], [- 2, 31], [40, 41]] ! i))
          [0..<length [[10, 11], [20, - 2], [- 2, 31], [40, 41 :: int]]])))\<rparr>, example_state)"
    by simp
  then have run: "draw_lanes record_circle (example_self four_lane_record) example_state =
       (None,
        (example_self four_lane_record)\<lparr>image_buf := Attr (Some
          [((JInt 10, JInt 100), 3, (255, 0, 0), - 1), ((JInt 11, JInt 200), 3, (255, 0, 0), - 1),
           ((JInt 20, JInt 100), 3, (0, 255, 0), - 1),
           ((JInt 31, JInt 200), 3, (0, 0, 255), - 1),
           ((JInt 40, JInt 100), 3, (255, 0, 0), - 1), ((JInt 41, JInt 200), 3, (255, 0, 0), - 1)])\<rparr>,
        example_state)"
    unfolding four by (simp add: expected_markers_def default_line_colors_def)
  from c run same show ?thesis
    by (simp add: default_line_colors_def)
qed

subsection \<open>Frame\<close>

text \<open>
  Claim C8.  Whatever the record, the palette and \<^verbatim>\<open>cv2.circle\<close> are, and whether
  \<^verbatim>\<open>draw_lanes\<close> returns or raises, it leaves the instance as it was except for the
  image: \<^verbatim>\<open>json_path\<close>, \<^verbatim>\<open>line_colors\<close> and \<^verbatim>\<open>data\<close> (with its lanes, height samples
  and image path) keep their values, and so do the palettes on the heap, the file system
  and the trace.
\<close>

theorem draw_lanes_frame:
  "\<exists>r im'. draw_lanes circle self s = (r, self\<lparr>image_buf := im'\<rparr>, s)"
proof (cases "data self")
  case Unset
  have "self = self\<lparr>image_buf := image_buf self\<rparr>" by simp
  with Unset show ?thesis
    unfolding draw_lanes_def by (metis attr.simps(4))
next
  case (Attr d)
  have same: "self = self\<lparr>image_buf := image_buf self\<rparr>" by simp
  show ?thesis
  proof (cases "py_getitem d ''lanes''")
    case (Inl e)
    with Attr have "draw_lanes circle self s = (Some e, self, s)"
      by (simp add: draw_lanes_def)
    with same show ?thesis by metis
  next
    case lanes: (Inr lanes)
    show ?thesis
    proof (cases "py_getitem d ''h_samples''")
      case (Inl e)
      with Attr lanes have "draw_lanes circle self s = (Some e, self, s)"
        by (simp add: draw_lanes_def)
      with same show ?thesis by metis
    next
      case hs: (Inr h_samples)
      show ?thesis
      proof (cases "py_iter lanes")
        case (Inl e)
        with Attr lanes hs have "draw_lanes circle self s = (Some e, self, s)"
          by (simp add: draw_lanes_def)
        with same show ?thesis by metis
      next
        case (Inr ls)
        obtain r self' where loop: "draw_lanes_loop circle h_samples 0 ls self s = (r, self')"
          by (cases "draw_lanes_loop circle h_samples 0 ls self s")
        from draw_lanes_loop_frame [OF loop]
        have "self' = self\<lparr>image_buf := image_buf self'\<rparr>" .
        moreover from Attr lanes hs Inr loop
        have "draw_lanes circle self s = (r, self', s)"
          by (simp add: draw_lanes_def)
        ultimately show ?thesis by metis
      qed
    qed
  qed
qed


section \<open>A record without \<^verbatim>\<open>lanes\<close>\<close>

text \<open>
  Claim C4, as the code has it.  No line of the source checks a record's fields, and no
  \<^verbatim>\<open>MalformedInputError\<close> exists.  For a loaded record that is a JSON object without the
  key \<^verbatim>\<open>lanes\<close>, \<^verbatim>\<open>draw_lanes\<close> raises \<^verbatim>\<open>KeyError\<close> at its first statement, and so does
  \<^verbatim>\<open>visualize\<close>: nothing is drawn and nothing is written, the instance and the state are
  as before.  The image load does not look at \<^verbatim>\<open>lanes\<close>: with a string under
  \<^verbatim>\<open>raw_file\<close>, \<^verbatim>\<open>_load_image\<close> reads the image file of such a record and returns.
\<close>

theorem missing_lanes_KeyError:
  assumes "data self = Attr (JObj kvs)" and "map_of kvs ''lanes'' = None"
  shows "draw_lanes circle self s = (Some KeyError, self, s)
     \<and> visualize circle has_writer output_path self s = (Some KeyError, self, s)
     \<and> (\<forall>p. map_of kvs ''raw_file'' = Some (JStr p) \<longrightarrow>
            load_image self s = (Inr (fst (imread p s)), s\<lparr>trace := trace s @ [ImRead p]\<rparr>))"
proof -
  have d: "draw_lanes circle self s = (Some KeyError, self, s)"
    using assms by (simp add: draw_lanes_def)
  have v: "visualize circle has_writer output_path self s = (Some KeyError, self, s)"
    by (simp add: visualize_def d arity_ok_def draw_lanes_params_def)
  have l: "load_image self s = (Inr (fst (imread p s)), s\<lparr>trace := trace s @ [ImRead p]\<rparr>)"
    if "map_of kvs ''raw_file'' = Some (JStr p)" for p
    using assms(1) that by (simp add: load_image_def imread_def)
  from d v l show ?thesis by blast
qed

theorem missing_lanes_KeyError_witness:
  "data (example_self no_lanes_record) = Attr no_lanes_record
   \<and> draw_lanes record_circle (example_self no_lanes_record) example_state =
       (Some KeyError, example_self no_lanes_record, example_state)
   \<and> visualize record_circle any_writer ''out/lanes.png'' (example_self no_lanes_record) example_state =
       (Some KeyError, example_self no_lanes_record, example_state)
   \<and> load_image (example_self no_lanes_record) example_state =
       (Inr (Some []), example_state\<lparr>trace := [ImRead ''clips/0601/20.jpg'']\<rparr>)"
proof -
  have d: "data (example_self no_lanes_record) =
      Attr (JObj [(''raw_file'', JStr ''clips/0601/20.jpg''), (''h_samples'', ints_json [100, 200, 300])])"
    by (simp add: example_self_def no_lanes_record_def)
  have m: "map_of [(''raw_file'', JStr ''clips/0601/20.jpg''), (''h_samples'', ints_json [100, 200, 300])]
      ''lanes'' = None"
    by simp
  have r: "map_of [(''raw_file'', JStr ''clips/0601/20.jpg''), (''h_samples'', ints_json [100, 200, 300])]
      ''raw_file'' = Some (JStr ''clips/0601/20.jpg'')"
    by simp
  have i: "fst (imread ''clips/0601/20.jpg'' example_state) = Some []"
    by (simp add: imread_def split_path_def add_component_def example_state_def)
  have t: "trace example_state = []"
    by (simp add: example_state_def)
  from missing_lanes_KeyError [OF d m, of record_circle example_state any_writer "''out/lanes.png''"] r i t d
  show ?thesis
    by (simp add: no_lanes_record_def)
qed

text \<open>
  Claim C4 as stated fails.  With a label file whose record lacks \<^verbatim>\<open>lanes\<close>, the script
  stops with \<^verbatim>\<open>TypeError\<close>; on the loaded record \<^verbatim>\<open>draw_lanes\<close> raises \<^verbatim>\<open>KeyError\<close>;
  neither is \<^verbatim>\<open>MalformedInputError\<close>, and \<^verbatim>\<open>_load_image\<close> on that record reads the
  image without complaint.
\<close>

theorem missing_lanes_counterexample:
  "fst (run record_circle any_writer ''label.json'' ''out/lanes.png''
          (example_state\<lparr>fs := Dir [(''label.json'', File (Json no_lanes_record)),
             (''clips'', Dir [(''0601'', Dir [(''20.jpg'', File (Raster []))])])]\<rparr>)) = Some TypeError
   \<and> fst (run record_circle any_writer ''label.json'' ''out/lanes.png''
          (example_state\<lparr>fs := Dir [(''label.json'', File (Json no_lanes_record)),
             (''clips'', Dir [(''0601'', Dir [(''20.jpg'', File (Raster []))])])]\<rparr>)) \<noteq> Some MalformedInputError
   \<and> fst (draw_lanes record_circle (example_self no_lanes_record) example_state) = Some KeyError
   \<and> fst (draw_lanes record_circle (example_self no_lanes_record) example_state) \<noteq> Some MalformedInputError
   \<and> load_image (example_self no_lanes_record) example_state =
       (Inr (Some []), example_state\<lparr>trace := [ImRead ''clips/0601/20.jpg'']\<rparr>)"
  by (simp add: run_def init_def Let_def arity_ok_def load_json_params_def alloc_def new_instance_def
      draw_lanes_def load_image_def imread_def split_path_def add_component_def example_self_def example_state_def
      no_lanes_record_def)


section \<open>Construction\<close>

text \<open>
  Claim C9.  Whatever the path, the palette argument and the state, the constructor
  stops with \<^verbatim>\<open>TypeError\<close> at \<^verbatim>\<open>self._load_json(self.json_path)\<close>: one argument is given
  to a method declared with none besides \<^verbatim>\<open>self\<close>.  Only \<^verbatim>\<open>json_path\<close> and
  \<^verbatim>\<open>line_colors\<close> are assigned by then; \<^verbatim>\<open>data\<close> and \<^verbatim>\<open>image\<close> are unset, no file was
  opened and no image read (the file system and the trace are untouched).
\<close>

theorem init_raises_TypeError:
  "fst (init jp lc s) = Some TypeError
   \<and> json_path (fst (snd (init jp lc s))) = Attr jp
   \<and> data (fst (snd (init jp lc s))) = Unset
   \<and> image_buf (fst (snd (init jp lc s))) = Unset
   \<and> fs (snd (snd (init jp lc s))) = fs s
   \<and> trace (snd (snd (init jp lc s))) = trace s"
  by (cases lc)
     (simp_all add: init_def Let_def arity_ok_def load_json_params_def alloc_def new_instance_def)

text \<open>
  Claim C7.  Two constructions in a row without a palette: each instance refers to a
  list allocated by its own call (the cell that was free when the call began), the two
  cells differ, both hold red, green and blue, and assigning any list to one cell leaves
  the other as it was.
\<close>

theorem default_palette_fresh:
  "(case init jp1 None s0 of (r1, v1, s1) \<Rightarrow>
      (case init jp2 None s1 of (r2, v2, s2) \<Rightarrow>
         line_colors v1 = Attr (next_free s0)
       \<and> line_colors v2 = Attr (next_free s1)
       \<and> next_free s0 \<noteq> next_free s1
       \<and> cells s1 (next_free s0) = [(255, 0, 0), (0, 255, 0), (0, 0, 255)]
       \<and> cells s2 (next_free s0) = [(255, 0, 0), (0, 255, 0), (0, 0, 255)]
       \<and> cells s2 (next_free s1) = [(255, 0, 0), (0, 255, 0), (0, 0, 255)]
       \<and> (\<forall>pal. cells (s2\<lparr>cells := (cells s2)(next_free s0 := pal)\<rparr>) (next_free s1) =
                  [(255, 0, 0), (0, 255, 0), (0, 0, 255)])
       \<and> (\<forall>pal. cells (s2\<lparr>cells := (cells s2)(next_free s1 := pal)\<rparr>) (next_free s0) =
                  [(255, 0, 0), (0, 255, 0), (0, 0, 255)])))"
  by (simp add: init_def Let_def arity_ok_def load_json_params_def alloc_def new_instance_def
      default_line_colors_def)


section \<open>Directories and the written file\<close>

subsection \<open>Auxiliary facts about the file system\<close>

lemma lookup_makedirs_node:
  "makedirs_node exist_ok nd p = Inr nd' \<Longrightarrow> \<exists>es. lookup nd' p = Some (Dir es)"
proof (induction exist_ok nd p arbitrary: nd' rule: makedirs_node.induct)
  case (1 exist_ok c)
  then show ?case by simp
next
  case (2 exist_ok es)
  then show ?case by (auto split: if_splits)
next
  case (3 exist_ok c n ns)
  then show ?case by simp
next
  case (4 exist_ok es n ns)
  let ?sub = "case map_of es n of None \<Rightarrow> Dir [] | Some d \<Rightarrow> d"
  from "4.prems" obtain d' where sub: "makedirs_node exist_ok ?sub ns = Inr d'"
    and nd': "nd' = Dir (AList.update n d' es)"
    by (auto split: sum.splits)
  from "4.IH" [OF sub] obtain es' where "lookup d' ns = Some (Dir es')" by blast
  with nd' show ?case by (simp add: update_conv')
qed

text \<open>A path that exists still exists after \<open>makedirs_node\<close> succeeded on any path.\<close>

lemma lookup_preserved:
  "makedirs_node exist_ok nd p = Inr nd' \<Longrightarrow> lookup nd q \<noteq> None \<Longrightarrow> lookup nd' q \<noteq> None"
proof (induction exist_ok nd p arbitrary: nd' q rule: makedirs_node.induct)
  case (1 exist_ok c)
  then show ?case by simp
next
  case (2 exist_ok es)
  then show ?case by (auto split: if_splits)
next
  case (3 exist_ok c n ns)
  then show ?case by simp
next
  case (4 exist_ok es n ns)
  let ?sub = "case map_of es n of None \<Rightarrow> Dir [] | Some d \<Rightarrow> d"
  from "4.prems"(1) obtain d' where sub: "makedirs_node exist_ok ?sub ns = Inr d'"
    and nd': "nd' = Dir (AList.update n d' es)"
    by (auto split: sum.splits)
  show ?case
  proof (cases q)
    case Nil
    then show ?thesis by simp
  next
    case (Cons m ms)
    show ?thesis
    proof (cases "m = n")
      case True
      from "4.prems"(2) Cons True obtain d where d: "map_of es n = Some d" and l: "lookup d ms \<noteq> None"
        by (auto split: option.splits)
      from sub d have "makedirs_node exist_ok d ns = Inr d'" by simp
      from "4.IH" [OF sub] d l have "lookup d' ms \<noteq> None" by simp
      with nd' Cons True show ?thesis by (simp add: update_conv')
    next
      case False
      with "4.prems"(2) nd' Cons show ?thesis by (simp add: update_conv')
    qed
  qed
qed

lemma makedirs_exists:
  "makedirs p exist_ok s = (None, s') \<Longrightarrow> path_exists s' p"
  using lookup_makedirs_node [of exist_ok "fs s" "split_path p"]
  by (auto simp: makedirs_def path_exists_def split: if_splits sum.splits)

lemma makedirs_preserves_exists:
  "makedirs p exist_ok s = (None, s') \<Longrightarrow> path_exists s q \<Longrightarrow> path_exists s' q"
  using lookup_preserved [of exist_ok "fs s" "split_path p" _ "split_path q"]
  by (auto simp: makedirs_def path_exists_def split: if_splits sum.splits)

lemma ensure_preserves_exists:
  "ensure_file_exists args exist_ok s = (None, s') \<Longrightarrow> path_exists s q \<Longrightarrow> path_exists s' q"
proof (induction args arbitrary: s)
  case Nil
  then show ?case by simp
next
  case (Cons p ps)
  show ?case
  proof (cases "path_exists s p")
    case True
    with Cons.prems have "ensure_file_exists ps exist_ok s = (None, s')" by simp
    from Cons.IH [OF this Cons.prems(2)] show ?thesis .
  next
    case False
    obtain r s1 where m: "makedirs p exist_ok s = (r, s1)" by (cases "makedirs p exist_ok s")
    with False Cons.prems(1) have r: "r = None" and rest: "ensure_file_exists ps exist_ok s1 = (None, s')"
      by (auto split: option.splits)
    from m r Cons.prems(2) have "path_exists s1 q" by (auto dest: makedirs_preserves_exists)
    from Cons.IH [OF rest this] show ?thesis .
  qed
qed

lemma ensure_all_exist:
  "ensure_file_exists args exist_ok s = (None, s') \<Longrightarrow> \<forall>p \<in> set args. path_exists s' p"
proof (induction args arbitrary: s)
  case Nil
  then show ?case by simp
next
  case (Cons p ps)
  show ?case
  proof (cases "path_exists s p")
    case True
    with Cons.prems have rest: "ensure_file_exists ps exist_ok s = (None, s')" by simp
    from ensure_preserves_exists [OF rest True] Cons.IH [OF rest] show ?thesis by simp
  next
    case False
    obtain r s1 where m: "makedirs p exist_ok s = (r, s1)" by (cases "makedirs p exist_ok s")
    with False Cons.prems(1) have r: "r = None" and rest: "ensure_file_exists ps exist_ok s1 = (None, s')"
      by (auto split: option.splits)
    from m r have "path_exists s1 p" by (auto dest: makedirs_exists)
    from ensure_preserves_exists [OF rest this] Cons.IH [OF rest] show ?thesis by simp
  qed
qed

lemma ensure_noop:
  "\<forall>p \<in> set args. path_exists s p \<Longrightarrow> ensure_file_exists args exist_ok s = (None, s)"
  by (induction args) simp_all

lemma write_node_directory:
  "lookup nd p = Some (Dir es) \<Longrightarrow> write_node nd p c = None"
proof (induction nd p c arbitrary: es rule: write_node.induct)
  case (1 old c)
  then show ?case by simp
next
  case (2 es' c)
  then show ?case by simp
next
  case (3 old n ns c)
  then show ?case by simp
next
  case (4 es' n ns c)
  from "4.prems" obtain d where d: "map_of es' n = Some d" and l: "lookup d ns = Some (Dir es)"
    by (auto split: option.splits)
  from "4.IH" [OF d l] d show ?case by simp
qed

text \<open>
  Whenever nothing exists at \<open>output_path\<close> before the call, no file is there after it:
  either \<open>makedirs\<close> failed, or a directory now occupies the path and the write fails.
\<close>

lemma save_image_writes_no_new_file:
  assumes "output_path \<noteq> []" and "\<not> path_exists s output_path"
    and "save_image has_writer output_path self s = (r, s')"
  shows "lookup (fs s') (split_path output_path) \<noteq> Some (File c)"
proof (cases "makedirs output_path True s")
  case (Pair m s1)
  show ?thesis
  proof (cases m)
    case (Some e)
    with Pair assms have s': "s' = s1" by (simp add: save_image_def)
    from Pair Some assms(1) have "fs s1 = fs s"
      by (auto simp: makedirs_def split: sum.splits)
    with assms(1,2) s' show ?thesis by (simp add: path_exists_def)
  next
    case None
    note ne = assms(1)
    from Pair None ne obtain nd' where mk: "makedirs_node True (fs s) (split_path output_path) = Inr nd'"
      and s1: "fs s1 = nd'"
      by (auto simp: makedirs_def split: sum.splits)
    from lookup_makedirs_node [OF mk] obtain es where dir: "lookup (fs s1) (split_path output_path) = Some (Dir es)"
      using s1 by blast
    have same: "fs s' = fs s1"
    proof (cases "image_buf self")
      case Unset
      with Pair None assms show ?thesis by (simp add: save_image_def)
    next
      case (Attr im)
      with Pair None assms write_node_directory [OF dir] show ?thesis
        by (auto simp: save_image_def imwrite_def split: option.splits if_splits)
    qed
    with dir show ?thesis by simp
  qed
qed

subsection \<open>\<^verbatim>\<open>ensure_file_exists\<close> is idempotent\<close>

text \<open>
  Claim C6.  After a call of \<^verbatim>\<open>ensure_file_exists\<close> that returned normally, the same call
  again returns normally and changes nothing: every path of the call exists, so no
  directory is created and the state after the second call is the state after the
  first.  This holds for any number of paths and either value of \<^verbatim>\<open>exist_ok\<close>.
\<close>

theorem ensure_file_exists_idempotent:
  assumes "ensure_file_exists args exist_ok s = (None, s')"
  shows "ensure_file_exists args exist_ok s' = (None, s') \<and> (\<forall>p \<in> set args. path_exists s' p)"
  using ensure_all_exist [OF assms] ensure_noop by blast

theorem ensure_file_exists_idempotent_witness:
  "ensure_file_exists [''out/visual''] True example_state =
     (None, example_state\<lparr>
        fs := Dir [(''label.json'', File (Json example_record)),
                   (''clips'', Dir [(''0601'', Dir [(''20.jpg'', File (Raster []))])]),
                   (''out'', Dir [(''visual'', Dir [])])],
        trace := [MakeDirs ''out/visual'']\<rparr>)
   \<and> ensure_file_exists [''out/visual''] True (example_state\<lparr>
        fs := Dir [(''label.json'', File (Json example_record)),
                   (''clips'', Dir [(''0601'', Dir [(''20.jpg'', File (Raster []))])]),
                   (''out'', Dir [(''visual'', Dir [])])],
        trace := [MakeDirs ''out/visual'']\<rparr>) =
     (None, example_state\<lparr>
        fs := Dir [(''label.json'', File (Json example_record)),
                   (''clips'', Dir [(''0601'', Dir [(''20.jpg'', File (Raster []))])]),
                   (''out'', Dir [(''visual'', Dir [])])],
        trace := [MakeDirs ''out/visual'']\<rparr>)"
proof -
  have first: "ensure_file_exists [''out/visual''] True example_state =
     (None, example_state\<lparr>
        fs := Dir [(''label.json'', File (Json example_record)),
                   (''clips'', Dir [(''0601'', Dir [(''20.jpg'', File (Raster []))])]),
                   (''out'', Dir [(''visual'', Dir [])])],
        trace := [MakeDirs ''out/visual'']\<rparr>)"
    by (simp add: path_exists_def makedirs_def split_path_def add_component_def example_state_def)
  from ensure_file_exists_idempotent [OF first] first show ?thesis
    by simp
qed

subsection \<open>\<^verbatim>\<open>save_image\<close> on a path that does not exist yet\<close>

text \<open>
  Claim C5 on a concrete input.  \<^verbatim>\<open>save_image\<close> hands \<^verbatim>\<open>output_path\<close> itself to
  \<^verbatim>\<open>ensure_file_exists\<close>, not its parent.  With neither \<^verbatim>\<open>out\<close> nor
  \<^verbatim>\<open>out/lanes.png\<close> in the file system, the call creates \<^verbatim>\<open>out\<close> and a directory
  \<^verbatim>\<open>out/lanes.png\<close>; \<^verbatim>\<open>cv2.imwrite\<close> then finds a directory where the file should go,
  writes nothing, and \<^verbatim>\<open>save_image\<close> returns normally without an image file.
\<close>

theorem save_image_makes_directory:
  "save_image any_writer ''out/lanes.png'' (example_self example_record) example_state =
     (None,
      example_state\<lparr>
        fs := Dir [(''label.json'', File (Json example_record)),
                   (''clips'', Dir [(''0601'', Dir [(''20.jpg'', File (Raster []))])]),
                   (''out'', Dir [(''lanes.png'', Dir [])])],
        trace := [MakeDirs ''out/lanes.png'', ImWrite ''out/lanes.png'']\<rparr>)"
  by (simp add: save_image_def path_exists_def makedirs_def imwrite_def any_writer_def
      split_path_def add_component_def example_state_def example_self_def)

end
